theory Spec2Isabelle
  imports Main "HOL-Library.Sublist"
begin

section \<open>The upload command of twine (twine/commands/upload.py)\<close>

text \<open>
  Python strings are modelled as \<^typ>\<open>string\<close>. \<open>s.startswith(t)\<close> is \<^term>\<open>prefix t s\<close>,
  \<open>s.endswith(t)\<close> is \<^term>\<open>suffix t s\<close> and \<open>t in s\<close> is \<^term>\<open>sublist t s\<close>
  (a contiguous occurrence).
\<close>

subsection \<open>Data\<close>

text \<open>
  The response object of the HTTP library, with the attributes that upload.py reads.
  \<open>resp_text\<close> is the attribute \<open>text\<close>; \<open>headers\<close> is a dictionary, and
  \<open>headers["location"]\<close> raises KeyError on a missing key.
\<close>

record response =
  status_code :: int
  reason :: string
  resp_text :: string
  url :: string
  is_redirect :: bool
  headers :: "string \<rightharpoonup> string"

text \<open>
  Modelled from the spec: the class PackageFile of twine/package.py. A package carries
  its path, its basename, its signed basename (the basename with \<open>.asc\<close> appended), an
  optional comment and an optional attached signature (the name of the signature and
  its contents).
\<close>

record package =
  filename :: string
  basefilename :: string
  signed_basefilename :: string
  comment :: "string option"
  gpg_signature :: "(string \<times> string) option"

text \<open>
  The attributes of \<open>upload_settings\<close> that upload.py reads; \<open>repository\<close> is
  \<open>repository_config['repository']\<close>.
\<close>

record settings =
  skip_existing :: bool
  sign :: bool
  sign_with :: string
  identity :: "string option"
  verbose :: bool
  settings_comment :: "string option"
  repository :: string

text \<open>The exceptions that upload.py raises.\<close>

datatype error =
    RedirectDetected string string
  | UploadToDeprecatedPyPIDetected string
  | InvalidPyPIUploadURL string
  | HTTPError int string
  | KeyError string

text \<open>
  Every call of a collaborator and every printed line is logged, in the order of
  execution, together with what the call returned.
\<close>

datatype event =
    is_print: Print string
  | Call_check_repository_url
  | Call_create_repository
  | is_package_is_uploaded: Call_package_is_uploaded package bool
  | is_add_gpg_signature: Call_add_gpg_signature string string
  | is_sign: Call_sign string "string option" string
  | is_upload: Call_upload package response
  | is_release_urls: Call_release_urls "package list" "string list"
  | is_close: Call_close

text \<open>
  The collaborators, taken as parameters. The repository client answers as a function
  of the log so far, so that its answers may depend on everything that happened before.
  An exception raised inside a collaborator passes through \<open>upload\<close> unchanged and is
  not modelled: every collaborator returns.
  \<open>DEFAULT_REPOSITORY\<close> and \<open>TEST_REPOSITORY\<close> are the two constants of twine/utils.py.
\<close>

record env =
  DEFAULT_REPOSITORY :: string
  TEST_REPOSITORY :: string
  find_dists :: "string list \<Rightarrow> string list"
  read_file :: "string \<Rightarrow> string"
  run_gpg :: "string \<Rightarrow> string option \<Rightarrow> string \<Rightarrow> string"
  package_is_uploaded :: "event list \<Rightarrow> package \<Rightarrow> bool"
  repository_upload :: "event list \<Rightarrow> package \<Rightarrow> response"
  release_urls :: "event list \<Rightarrow> package list \<Rightarrow> string list"

text \<open>The log and the local variable \<open>uploaded_packages\<close> of \<open>upload\<close>.\<close>

record state =
  trace :: "event list"
  uploaded_packages :: "package list"

definition emit :: "event list \<Rightarrow> state \<Rightarrow> state" where
  "emit es st = st\<lparr>trace := trace st @ es\<rparr>"

subsection \<open>The response classifier\<close>

definition msg_400 :: "string \<Rightarrow> string list" where
  \<open>msg_400 fname =
     [''A file named "'' @ fname @ ''" already exists for'',
      ''File already exists'',
      ''Repository does not allow updating assets'']\<close>

definition msg_403 :: string where
  "msg_403 = ''Not enough permissions to overwrite artifact''"

text \<open>\<open>startswith\<close> with a tuple is true when the string starts with one of its members.\<close>

definition skip_upload :: "response \<Rightarrow> bool \<Rightarrow> package \<Rightarrow> bool" where
  "skip_upload resp skip_ex pkg =
     (skip_ex \<and> (status_code resp = 409 \<or>
        (status_code resp = 400 \<and>
         list_ex (\<lambda>m. prefix m (reason resp)) (msg_400 (basefilename pkg))) \<or>
        (status_code resp = 403 \<and> sublist msg_403 (resp_text resp))))"

subsection \<open>The status validator\<close>

definition deprecated_message :: "env \<Rightarrow> string" where
  "deprecated_message e =
     ''It appears you're uploading to pypi.python.org (or '' @
     ''testpypi.python.org). You've received a 410 error response. '' @
     ''Uploading to those sites is deprecated. The new sites are '' @
     ''pypi.org and test.pypi.org. Try using '' @ DEFAULT_REPOSITORY e @ '' (or '' @
     TEST_REPOSITORY e @ '') to upload your packages instead. These are '' @
     ''the default URLs for Twine now. More at '' @
     ''https://packaging.python.org/guides/migrating-to-pypi-org/.''"

definition invalid_url_message :: "env \<Rightarrow> string" where
  "invalid_url_message e =
     ''It appears you're trying to upload to pypi.org but have an '' @
     ''invalid URL. You probably want one of these two URLs: '' @
     DEFAULT_REPOSITORY e @ '' or '' @ TEST_REPOSITORY e @ ''. Check your '' @
     ''--repository-url value.''"

text \<open>
  \<open>raise_for_status\<close> of the HTTP library raises HTTPError exactly for a status from 400
  to 599 (the standard "raise on 4xx/5xx"); the error carries the status and the body.
\<close>

definition raise_for_status :: "response \<Rightarrow> error option" where
  "raise_for_status resp =
     (if 400 \<le> status_code resp \<and> status_code resp < 600
      then Some (HTTPError (status_code resp) (resp_text resp)) else None)"

text \<open>The result is the lines printed and the exception raised, if any.\<close>

definition check_status_code :: "env \<Rightarrow> response \<Rightarrow> bool \<Rightarrow> string list \<times> error option" where
  "check_status_code e resp verb =
     (if status_code resp = 410 \<and> sublist ''pypi.python.org'' (url resp)
      then ([], Some (UploadToDeprecatedPyPIDetected (deprecated_message e)))
      else if status_code resp = 405 \<and> sublist ''pypi.org'' (url resp)
      then ([], Some (InvalidPyPIUploadURL (invalid_url_message e)))
      else (case raise_for_status resp of
              None \<Rightarrow> ([], None)
            | Some err \<Rightarrow>
                ((if resp_text resp \<noteq> []
                  then (if verb
                        then [''Content received from server:'' @ [CHR 0x0A] @ resp_text resp]
                        else [''NOTE: Try --verbose to see response content.''])
                  else []),
                 Some err)))"

subsection \<open>The partitioner\<close>

text \<open>\<open>os.path.basename\<close> (POSIX): what follows the last slash of the path.\<close>

definition basename :: "string \<Rightarrow> string" where
  "basename p = rev (takeWhile (\<lambda>c. c \<noteq> CHR ''/'') (rev p))"

text \<open>
  The dictionary comprehension inserts the signature paths in input order, so that a
  later path replaces an earlier one with the same basename.
\<close>

definition signatures :: "string list \<Rightarrow> (string \<rightharpoonup> string)" where
  "signatures dists =
     foldl (\<lambda>m d. m(basename d \<mapsto> d)) Map.empty (filter (\<lambda>d. suffix ''.asc'' d) dists)"

definition uploads :: "string list \<Rightarrow> string list" where
  "uploads dists = filter (\<lambda>i. \<not> suffix ''.asc'' i) dists"

subsection \<open>Packages and their signatures\<close>

text \<open>
  Modelled from the spec: \<open>PackageFile.from_filename\<close> of twine/package.py, which
  loads a package from its path; the signed basename is the basename with \<open>.asc\<close>
  appended, and no signature is attached yet.
\<close>

definition from_filename :: "string \<Rightarrow> string option \<Rightarrow> package" where
  "from_filename f c =
     \<lparr>filename = f, basefilename = basename f,
      signed_basefilename = basename f @ ''.asc'', comment = c, gpg_signature = None\<rparr>"

text \<open>
  Modelled from the spec: \<open>PackageFile.add_gpg_signature\<close> of twine/package.py, which
  attaches the contents of the signature file under the given name.
\<close>

definition add_gpg_signature :: "env \<Rightarrow> package \<Rightarrow> string \<Rightarrow> string \<Rightarrow> package" where
  "add_gpg_signature e pkg path name = pkg\<lparr>gpg_signature := Some (name, read_file e path)\<rparr>"

text \<open>
  Modelled from the spec: \<open>PackageFile.sign\<close> of twine/package.py, which invokes the
  external signing capability on the package's file and attaches its output.
\<close>

definition package_sign :: "env \<Rightarrow> package \<Rightarrow> string \<Rightarrow> string option \<Rightarrow> package" where
  "package_sign e pkg sw ident =
     pkg\<lparr>gpg_signature := Some (signed_basefilename pkg, run_gpg e sw ident (filename pkg))\<rparr>"

text \<open>Lines 116 to 120 of upload.py: the signature of one package.\<close>

definition attach_signature ::
  "env \<Rightarrow> settings \<Rightarrow> (string \<rightharpoonup> string) \<Rightarrow> package \<Rightarrow> state \<Rightarrow> package \<times> state" where
  "attach_signature e s sigs pkg st =
     (let signed_name = signed_basefilename pkg in
      case sigs signed_name of
        Some path \<Rightarrow>
          (add_gpg_signature e pkg path signed_name,
           emit [Call_add_gpg_signature path signed_name] st)
      | None \<Rightarrow>
          if sign s
          then (package_sign e pkg (sign_with s) (identity s),
                emit [Call_sign (sign_with s) (identity s) (filename pkg)] st)
          else (pkg, st))"

subsection \<open>The orchestrator\<close>

definition skip_message :: "package \<Rightarrow> string" where
  "skip_message pkg =
     ''  Skipping '' @ basefilename pkg @ '' because it appears to already exist''"

text \<open>
  The body of the loop over \<open>uploads\<close> (lines 102 to 140), for one path. The result is
  the state when the iteration ends and the exception that ended it, if any; \<open>continue\<close>
  and the normal end of the body both give \<open>None\<close>.
\<close>

definition upload_body ::
  "env \<Rightarrow> settings \<Rightarrow> (string \<rightharpoonup> string) \<Rightarrow> string \<Rightarrow> string \<Rightarrow> state \<Rightarrow> state \<times> error option" where
  "upload_body e s sigs repository_url fname st =
     (let pkg = from_filename fname (settings_comment s);
          pre = (if skip_existing s then Some (package_is_uploaded e (trace st) pkg) else None);
          st1 = (case pre of
                   Some b \<Rightarrow> emit [Call_package_is_uploaded pkg b] st
                 | None \<Rightarrow> st)
      in if pre = Some True then (emit [Print (skip_message pkg)] st1, None)
         else
           (let (pkg2, st2) = attach_signature e s sigs pkg st1;
                resp = repository_upload e (trace st2) pkg2;
                st3 = emit [Call_upload pkg2 resp] st2
            in if is_redirect resp
               then (case headers resp ''location'' of
                       None \<Rightarrow> (st3, Some (KeyError ''location''))
                     | Some loc \<Rightarrow> (st3, Some (RedirectDetected repository_url loc)))
               else if skip_upload resp (skip_existing s) pkg2
               then (emit [Print (skip_message pkg)] st3, None)
               else (case check_status_code e resp (verbose s) of
                       (out, Some err) \<Rightarrow> (emit (map Print out) st3, Some err)
                     | (out, None) \<Rightarrow>
                         ((emit (map Print out) st3)
                            \<lparr>uploaded_packages := uploaded_packages st3 @ [pkg2]\<rparr>,
                          None))))"

text \<open>The loop: the first exception ends it.\<close>

fun upload_loop ::
  "env \<Rightarrow> settings \<Rightarrow> (string \<rightharpoonup> string) \<Rightarrow> string \<Rightarrow> string list \<Rightarrow> state \<Rightarrow> state \<times> error option" where
  "upload_loop e s sigs repository_url [] st = (st, None)"
| "upload_loop e s sigs repository_url (f # fs) st =
     (case upload_body e s sigs repository_url f st of
        (st', Some err) \<Rightarrow> (st', Some err)
      | (st', None) \<Rightarrow> upload_loop e s sigs repository_url fs st')"

text \<open>
  The function \<open>upload\<close>, started on an empty log. When an exception leaves the loop,
  nothing after the loop runs: the source has no handler and no \<open>finally\<close>.
\<close>

definition upload :: "env \<Rightarrow> settings \<Rightarrow> string list \<Rightarrow> state \<times> error option" where
  "upload e s dists0 =
     (let dists = find_dists e dists0;
          sigs = signatures dists;
          ups = uploads dists;
          st0 = \<lparr>trace = [Call_check_repository_url], uploaded_packages = []\<rparr>;
          repository_url = repository s;
          st1 = emit [Print (''Uploading distributions to '' @ repository_url)] st0;
          st2 = emit [Call_create_repository] st1
      in case upload_loop e s sigs repository_url ups st2 of
           (st3, Some err) \<Rightarrow> (st3, Some err)
         | (st3, None) \<Rightarrow>
             (let urls = release_urls e (trace st3) (uploaded_packages st3);
                  st4 = emit [Call_release_urls (uploaded_packages st3) urls] st3;
                  st5 = (if urls \<noteq> []
                         then emit (Print (CHR 0x0A # ''View at:'') # map Print urls) st4
                         else st4)
              in (emit [Call_close] st5, None)))"

subsection \<open>Notions used in the statements\<close>

text \<open>The events that the loop over \<open>uploads\<close> can log.\<close>

definition loop_event :: "event \<Rightarrow> bool" where
  "loop_event ev =
     (is_print ev \<or> is_package_is_uploaded ev \<or> is_add_gpg_signature ev \<or>
      is_sign ev \<or> is_upload ev)"

text \<open>An upload that the repository answered with a redirect.\<close>

fun redirect_upload :: "event \<Rightarrow> bool" where
  "redirect_upload (Call_upload p resp) = is_redirect resp"
| "redirect_upload _ = False"

text \<open>
  An upload attempt that passed the redirect guard, was not classified as a skip and
  passed the status validator.
\<close>

definition accepted :: "env \<Rightarrow> settings \<Rightarrow> package \<Rightarrow> response \<Rightarrow> bool" where
  "accepted e s pkg resp =
     (\<not> is_redirect resp \<and> \<not> skip_upload resp (skip_existing s) pkg \<and>
      snd (check_status_code e resp (verbose s)) = None)"

text \<open>The packages of the accepted upload attempts of a log, in the order of the log.\<close>

definition successes :: "env \<Rightarrow> settings \<Rightarrow> event list \<Rightarrow> package list" where
  "successes e s es = [p. Call_upload p resp \<leftarrow> es, accepted e s p resp]"

text \<open>
  An upload answered with status 409 and without a redirect; every other event counts
  as harmless.
\<close>

definition benign_conflict :: "event \<Rightarrow> bool" where
  "benign_conflict ev =
     (case ev of
        Call_upload p resp \<Rightarrow> status_code resp = 409 \<and> \<not> is_redirect resp
      | _ \<Rightarrow> True)"

text \<open>
  In a log with result \<open>r\<close>, an upload answered with a redirect is the last entry and
  \<open>r\<close> is the exception of the redirect guard.
\<close>

fun redirect_inv :: "string \<Rightarrow> event list \<Rightarrow> error option \<Rightarrow> bool" where
  "redirect_inv ru [] r = True"
| "redirect_inv ru (Call_upload p resp # es) r =
     (if is_redirect resp
      then es = [] \<and>
           r = Some (case headers resp ''location'' of
                       None \<Rightarrow> KeyError ''location''
                     | Some loc \<Rightarrow> RedirectDetected ru loc)
      else redirect_inv ru es r)"
| "redirect_inv ru (ev # es) r = redirect_inv ru es r"

subsection \<open>The classifier as the specification words it\<close>

text \<open>
  The decision table of the specification, read literally: a prefix match for the legacy
  message and equality for the other two messages of status 400.
\<close>

definition skip_upload_spec :: "response \<Rightarrow> bool \<Rightarrow> package \<Rightarrow> bool" where
  \<open>skip_upload_spec resp skip_ex pkg =
     (skip_ex \<and> (status_code resp = 409 \<or>
        (status_code resp = 400 \<and>
           (prefix (''A file named "'' @ basefilename pkg @ ''" already exists for'') (reason resp) \<or>
            reason resp = ''File already exists'' \<or>
            reason resp = ''Repository does not allow updating assets'')) \<or>
        (status_code resp = 403 \<and>
           sublist ''Not enough permissions to overwrite artifact'' (resp_text resp))))\<close>

subsection \<open>Concrete inputs\<close>

text \<open>A status 400 whose reason continues after the words of the modern index.\<close>

definition c2_response :: response where
  "c2_response =
     \<lparr>status_code = 400,
      reason = ''File already exists. See https://pypi.org/help/#file-name-reuse'',
      resp_text = [], url = ''https://upload.pypi.org/legacy/'',
      is_redirect = False, headers = Map.empty\<rparr>"

definition c2_package :: package where
  "c2_package = from_filename ''dist/pkg-1.0.tar.gz'' None"

text \<open>
  A mocked repository: nothing is known to be uploaded, the response depends on the
  package only, and there are no release URLs.
\<close>

definition mock_response :: "int \<Rightarrow> response" where
  "mock_response n =
     \<lparr>status_code = n, reason = [], resp_text = [],
      url = ''https://upload.pypi.org/legacy/'', is_redirect = False, headers = Map.empty\<rparr>"

definition mock_env :: "(package \<Rightarrow> response) \<Rightarrow> env" where
  "mock_env respond =
     \<lparr>DEFAULT_REPOSITORY = ''https://upload.pypi.org/legacy/'',
      TEST_REPOSITORY = ''https://test.pypi.org/legacy/'',
      find_dists = (\<lambda>ds. ds),
      read_file = (\<lambda>p. ''contents of '' @ p),
      run_gpg = (\<lambda>sw ident p. ''signature of '' @ p),
      package_is_uploaded = (\<lambda>tr p. False),
      repository_upload = (\<lambda>tr p. respond p),
      release_urls = (\<lambda>tr ps. [])\<rparr>"

definition mock_settings :: "bool \<Rightarrow> settings" where
  "mock_settings skip =
     \<lparr>skip_existing = skip, sign = False, sign_with = ''gpg'', identity = None,
      verbose = False, settings_comment = None,
      repository = ''https://upload.pypi.org/legacy/''\<rparr>"

text \<open>Scenario E: the upload of \<open>a\<close> succeeds, the upload of \<open>b\<close> is answered with 500.\<close>

definition scenario_e_env :: env where
  "scenario_e_env =
     mock_env (\<lambda>p. if basefilename p = ''b'' then mock_response 500 else mock_response 200)"

text \<open>A batch that holds a signature file only.\<close>

definition c9_dists :: "string list" where
  "c9_dists = [''dist/pkg-1.0.tar.gz.asc'']"

text \<open>The state before anything is logged.\<close>

definition empty_state :: state where
  "empty_state = \<lparr>trace = [], uploaded_packages = []\<rparr>"

text \<open>Scenario B: the upload is answered with a redirect to a mirror.\<close>

definition redirect_response :: response where
  "redirect_response =
     \<lparr>status_code = 301, reason = ''Moved Permanently'', resp_text = [],
      url = ''https://upload.pypi.org/legacy/'', is_redirect = True,
      headers = [''location'' \<mapsto> ''https://mirror.example/x'']\<rparr>"

text \<open>A repository that knows every package as uploaded.\<close>

definition known_env :: env where
  "known_env = (mock_env (\<lambda>p. mock_response 200))\<lparr>package_is_uploaded := (\<lambda>tr p. True)\<rparr>"

text \<open>Scenario C: a package with its signature file, here with the sign option set.\<close>

definition scenario_c_dists :: "string list" where
  "scenario_c_dists = [''pkg-1.0.tar.gz'', ''pkg-1.0.tar.gz.asc'']"

definition signing_settings :: settings where
  "signing_settings = (mock_settings False)\<lparr>sign := True\<rparr>"

text \<open>Two signature files with one basename, and a package.\<close>

definition c4_dists :: "string list" where
  "c4_dists = [''a/x.asc'', ''pkg-1.0.tar.gz'', ''b/x.asc'']"

section \<open>Properties\<close>

subsection \<open>Auxiliary facts\<close>

lemma sublist_skip: "sublist x ys \<Longrightarrow> sublist x (zs @ ys)"
  by (metis append.assoc sublist_def)

lemma sublist_default_deprecated: "sublist (DEFAULT_REPOSITORY e) (deprecated_message e)"
  unfolding deprecated_message_def
  by (rule sublist_append_rightI | rule sublist_skip)+

lemma sublist_test_deprecated: "sublist (TEST_REPOSITORY e) (deprecated_message e)"
  unfolding deprecated_message_def
  by (rule sublist_append_rightI | rule sublist_skip)+

lemmas model_defs = upload_def upload_body_def attach_signature_def emit_def Let_def
  from_filename_def basename_def skip_message_def signatures_def uploads_def
  skip_upload_def msg_400_def msg_403_def check_status_code_def raise_for_status_def
  add_gpg_signature_def package_sign_def suffix_to_prefix sublist_code
  mock_env_def mock_response_def mock_settings_def

lemma successes_append: "successes e s (xs @ ys) = successes e s xs @ successes e s ys"
  by (simp add: successes_def)

lemma list_all_print: "list_all loop_event (map Print out)"
  by (induction out) (simp_all add: loop_event_def)

lemma body_events:
  assumes "upload_body e s sigs ru f st = (st', r)"
  shows "\<exists>es. trace st' = trace st @ es \<and> list_all loop_event es"
  using assms
  unfolding upload_body_def attach_signature_def Let_def emit_def
  by (auto simp: loop_event_def list_all_print split: if_splits option.splits prod.splits)

lemma loop_events:
  assumes "upload_loop e s sigs ru fs st = (st', r)"
  shows "\<exists>es. trace st' = trace st @ es \<and> list_all loop_event es"
  using assms
proof (induction fs arbitrary: st)
  case Nil
  then show ?case by simp
next
  case (Cons f fs)
  obtain st1 r1 where b: "upload_body e s sigs ru f st = (st1, r1)"
    by (cases "upload_body e s sigs ru f st")
  from body_events[OF b] obtain es1
    where e1: "trace st1 = trace st @ es1" "list_all loop_event es1"
    by blast
  show ?case
  proof (cases r1)
    case None
    with Cons.prems b have "upload_loop e s sigs ru fs st1 = (st', r)" by simp
    from Cons.IH[OF this] obtain es2
      where "trace st' = trace st1 @ es2" "list_all loop_event es2"
      by blast
    with e1 show ?thesis by simp
  next
    case (Some err)
    with Cons.prems b have "st' = st1" by simp
    with e1 show ?thesis by blast
  qed
qed

lemma loop_event_not_close: "loop_event ev \<Longrightarrow> ev \<noteq> Call_close"
  by (auto simp: loop_event_def)

lemma last_loop_events:
  assumes "list_all loop_event es"
  shows "last (Call_check_repository_url # Print x # Call_create_repository # es) \<noteq> Call_close"
proof (cases "es = []")
  case True
  then show ?thesis by simp
next
  case False
  then have "last es \<in> set es" by simp
  with assms have "loop_event (last es)" by (simp add: list_all_iff)
  with False show ?thesis by (auto dest: loop_event_not_close)
qed

lemma redirect_inv_prints: "redirect_inv ru (map Print out) r"
  by (induction out) simp_all

lemma redirect_inv_append: "redirect_inv ru es1 None \<Longrightarrow> redirect_inv ru (es1 @ es2) r = redirect_inv ru es2 r"
  by (induction ru es1 "None :: error option" rule: redirect_inv.induct) (simp_all split: if_splits)

lemma redirect_inv_last:
  "redirect_inv ru (pre @ Call_upload p resp # post) r \<Longrightarrow> is_redirect resp \<Longrightarrow>
   post = [] \<and> r = Some (case headers resp ''location'' of
                       None \<Rightarrow> KeyError ''location''
                     | Some loc \<Rightarrow> RedirectDetected ru loc)"
  by (induction ru pre r rule: redirect_inv.induct) (simp_all split: if_splits)

lemma body_redirect:
  assumes "upload_body e s sigs ru f st = (st', r)"
  shows "\<exists>es. trace st' = trace st @ es \<and> redirect_inv ru es r"
  using assms
  unfolding upload_body_def attach_signature_def Let_def emit_def
  by (auto simp: redirect_inv_prints split: if_splits option.splits prod.splits)

lemma loop_redirect:
  assumes "upload_loop e s sigs ru fs st = (st', r)"
  shows "\<exists>es. trace st' = trace st @ es \<and> redirect_inv ru es r"
  using assms
proof (induction fs arbitrary: st)
  case Nil
  then show ?case by simp
next
  case (Cons f fs)
  obtain st1 r1 where b: "upload_body e s sigs ru f st = (st1, r1)"
    by (cases "upload_body e s sigs ru f st")
  from body_redirect[OF b] obtain es1
    where e1: "trace st1 = trace st @ es1" "redirect_inv ru es1 r1"
    by blast
  show ?case
  proof (cases r1)
    case None
    with Cons.prems b have "upload_loop e s sigs ru fs st1 = (st', r)" by simp
    from Cons.IH[OF this] obtain es2
      where e2: "trace st' = trace st1 @ es2" "redirect_inv ru es2 r"
      by blast
    from e1(2) None have "redirect_inv ru (es1 @ es2) r = redirect_inv ru es2 r"
      by (simp add: redirect_inv_append)
    with e1 e2 show ?thesis by simp
  next
    case (Some err)
    with Cons.prems b have "st' = st1" "r = r1" by simp_all
    with e1 show ?thesis by blast
  qed
qed

lemma successes_Nil: "successes e s [] = []"
  by (simp add: successes_def)

lemma successes_upload:
  "successes e s (Call_upload p resp # es) =
     (if accepted e s p resp then p # successes e s es else successes e s es)"
  by (simp add: successes_def)

lemma successes_other: "\<not> is_upload ev \<Longrightarrow> successes e s (ev # es) = successes e s es"
  by (cases ev) (simp_all add: successes_def)

lemma successes_prints: "successes e s (map Print out) = []"
  by (induction out) (simp_all add: successes_Nil successes_other)

lemma body_successes:
  assumes "upload_body e s sigs ru f st = (st', r)"
  shows "\<exists>es. trace st' = trace st @ es \<and>
      uploaded_packages st' = uploaded_packages st @ successes e s es \<and>
      (skip_existing s \<and> list_all benign_conflict es \<longrightarrow> r = None)"
  using assms
  unfolding upload_body_def attach_signature_def Let_def emit_def
  by (auto simp: successes_Nil successes_upload successes_other successes_prints
      successes_append accepted_def benign_conflict_def skip_upload_def
      split: if_splits option.splits prod.splits)

lemma loop_successes:
  assumes "upload_loop e s sigs ru fs st = (st', r)"
  shows "\<exists>es. trace st' = trace st @ es \<and>
      uploaded_packages st' = uploaded_packages st @ successes e s es \<and>
      (skip_existing s \<and> list_all benign_conflict es \<longrightarrow> r = None)"
  using assms
proof (induction fs arbitrary: st)
  case Nil
  then show ?case by (simp add: successes_Nil)
next
  case (Cons f fs)
  obtain st1 r1 where b: "upload_body e s sigs ru f st = (st1, r1)"
    by (cases "upload_body e s sigs ru f st")
  from body_successes[OF b] obtain es1
    where e1: "trace st1 = trace st @ es1"
      "uploaded_packages st1 = uploaded_packages st @ successes e s es1"
      "skip_existing s \<and> list_all benign_conflict es1 \<longrightarrow> r1 = None"
    by blast
  show ?case
  proof (cases r1)
    case None
    with Cons.prems b have "upload_loop e s sigs ru fs st1 = (st', r)" by simp
    from Cons.IH[OF this] obtain es2
      where e2: "trace st' = trace st1 @ es2"
        "uploaded_packages st' = uploaded_packages st1 @ successes e s es2"
        "skip_existing s \<and> list_all benign_conflict es2 \<longrightarrow> r = None"
      by blast
    have "trace st' = trace st @ (es1 @ es2)" using e1 e2 by simp
    moreover have "uploaded_packages st' = uploaded_packages st @ successes e s (es1 @ es2)"
      using e1 e2 by (simp add: successes_append)
    moreover have "skip_existing s \<and> list_all benign_conflict (es1 @ es2) \<longrightarrow> r = None"
      using e2(3) by simp
    ultimately show ?thesis by blast
  next
    case (Some err)
    with Cons.prems b have "st' = st1" "r = r1" by simp_all
    with e1 show ?thesis by blast
  qed
qed

lemma no_piu_prints: "list_all (\<lambda>ev. \<not> is_package_is_uploaded ev) (map Print out)"
  by (induction out) simp_all

lemma body_precheck_on_aux:
  assumes "skip_existing s" and "upload_body e s sigs ru f st = (st', r)"
  shows "\<exists>es. trace st' =
           trace st @ Call_package_is_uploaded (from_filename f (settings_comment s))
              (package_is_uploaded e (trace st) (from_filename f (settings_comment s))) # es
         \<and> list_all (\<lambda>ev. \<not> is_package_is_uploaded ev) es"
  using assms
  unfolding upload_body_def attach_signature_def Let_def emit_def
  by (auto simp: no_piu_prints split: if_splits option.splits prod.splits)

lemma body_precheck_on:
  assumes "skip_existing s"
  shows "\<exists>es. trace (fst (upload_body e s sigs ru f st)) =
           trace st @ Call_package_is_uploaded (from_filename f (settings_comment s))
              (package_is_uploaded e (trace st) (from_filename f (settings_comment s))) # es
         \<and> list_all (\<lambda>ev. \<not> is_package_is_uploaded ev) es"
  by (rule body_precheck_on_aux[OF assms prod.collapse[symmetric]])

lemma body_precheck_skip:
  assumes "skip_existing s"
    and "package_is_uploaded e (trace st) (from_filename f (settings_comment s))"
  shows "upload_body e s sigs ru f st =
     (emit [Call_package_is_uploaded (from_filename f (settings_comment s)) True,
            Print (skip_message (from_filename f (settings_comment s)))] st, None)"
  using assms by (simp add: upload_body_def emit_def Let_def)

lemma body_precheck_off:
  assumes "\<not> skip_existing s" and "upload_body e s sigs ru f st = (st', r)"
  shows "\<exists>es. trace st' = trace st @ es \<and> list_all (\<lambda>ev. \<not> is_package_is_uploaded ev) es"
  using assms
  unfolding upload_body_def attach_signature_def Let_def emit_def
  by (auto simp: no_piu_prints split: if_splits option.splits prod.splits)

lemma loop_precheck_off:
  assumes "\<not> skip_existing s" and "upload_loop e s sigs ru fs st = (st', r)"
  shows "\<exists>es. trace st' = trace st @ es \<and> list_all (\<lambda>ev. \<not> is_package_is_uploaded ev) es"
  using assms(2)
proof (induction fs arbitrary: st)
  case Nil
  then show ?case by simp
next
  case (Cons f fs)
  obtain st1 r1 where b: "upload_body e s sigs ru f st = (st1, r1)"
    by (cases "upload_body e s sigs ru f st")
  from body_precheck_off[OF assms(1) b] obtain es1
    where e1: "trace st1 = trace st @ es1" "list_all (\<lambda>ev. \<not> is_package_is_uploaded ev) es1"
    by blast
  show ?case
  proof (cases r1)
    case None
    with Cons.prems b have "upload_loop e s sigs ru fs st1 = (st', r)" by simp
    from Cons.IH[OF this] obtain es2
      where "trace st' = trace st1 @ es2" "list_all (\<lambda>ev. \<not> is_package_is_uploaded ev) es2"
      by blast
    with e1 show ?thesis by simp
  next
    case (Some err)
    with Cons.prems b have "st' = st1" by simp
    with e1 show ?thesis by blast
  qed
qed

lemma signature_precedence_aux:
  assumes "\<not> (skip_existing s \<and>
               package_is_uploaded e (trace st) (from_filename f (settings_comment s)))"
    and "upload_body e s sigs ru f st = (st', r)"
  shows "\<exists>resp post.
     trace st' =
       trace st
       @ (if skip_existing s
          then [Call_package_is_uploaded (from_filename f (settings_comment s)) False] else [])
       @ (case sigs (basename f @ ''.asc'') of
            Some path \<Rightarrow> [Call_add_gpg_signature path (basename f @ ''.asc'')]
          | None \<Rightarrow> if sign s then [Call_sign (sign_with s) (identity s) f] else [])
       @ Call_upload ((from_filename f (settings_comment s))
         \<lparr>gpg_signature :=
            (case sigs (basename f @ ''.asc'') of
               Some path \<Rightarrow> Some (basename f @ ''.asc'', read_file e path)
             | None \<Rightarrow>
                 if sign s
                 then Some (basename f @ ''.asc'', run_gpg e (sign_with s) (identity s) f)
                 else None)\<rparr>) resp # post
     \<and> list_all is_print post"
  using assms
  unfolding upload_body_def attach_signature_def Let_def emit_def
  by (auto simp: from_filename_def add_gpg_signature_def package_sign_def list_all_iff
      split: if_splits option.splits prod.splits)

lemma find_snoc:
  "find P (xs @ [x]) = (case find P xs of Some y \<Rightarrow> Some y | None \<Rightarrow> if P x then Some x else None)"
  by (induction xs) simp_all

lemma foldl_upd_find:
  "foldl (\<lambda>m d. m(g d \<mapsto> d)) m xs k =
     (case find (\<lambda>d. g d = k) (rev xs) of Some d \<Rightarrow> Some d | None \<Rightarrow> m k)"
  by (induction xs rule: rev_induct) auto

lemma find_filter: "find P (filter Q xs) = find (\<lambda>x. Q x \<and> P x) xs"
  by (induction xs) simp_all

lemma find_SomeD: "find P xs = Some x \<Longrightarrow> x \<in> set xs \<and> P x"
  by (induction xs) (auto split: if_splits)

lemma signatures_find:
  "signatures dists k = find (\<lambda>d. suffix ''.asc'' d \<and> basename d = k) (rev dists)"
proof -
  have "signatures dists k =
      (case find (\<lambda>d. basename d = k) (rev (filter (\<lambda>d. suffix ''.asc'' d) dists)) of
         Some d \<Rightarrow> Some d | None \<Rightarrow> None)"
    unfolding signatures_def by (simp only: foldl_upd_find)
  also have "\<dots> = find (\<lambda>d. basename d = k) (filter (\<lambda>d. suffix ''.asc'' d) (rev dists))"
    by (simp add: rev_filter split: option.splits)
  also have "\<dots> = find (\<lambda>d. suffix ''.asc'' d \<and> basename d = k) (rev dists)"
    by (rule find_filter)
  finally show ?thesis .
qed

lemma ran_signatures: "ran (signatures dists) \<subseteq> {d \<in> set dists. suffix ''.asc'' d}"
  by (auto simp: ran_def signatures_find dest: find_SomeD)

lemma dom_signatures:
  "dom (signatures dists) = basename ` {d \<in> set dists. suffix ''.asc'' d}"
proof -
  have "(signatures dists k \<noteq> None) = (k \<in> basename ` {d \<in> set dists. suffix ''.asc'' d})" for k
    by (auto simp: signatures_find find_None_iff)
  then show ?thesis by (auto simp: dom_def)
qed

subsection \<open>The response classifier\<close>

text \<open>
  C2, as stated, fails: the three messages of status 400 are all matched as prefixes,
  because \<open>startswith\<close> is given the tuple of the three. A status 400 with the reason
  \<open>File already exists. See https://pypi.org/help/#file-name-reuse\<close> is classified as a
  skip by the code, although the reason is not equal to \<open>File already exists\<close>.
\<close>

theorem skip_upload_exact_counterexample:
  "skip_upload c2_response True c2_package \<and> \<not> skip_upload_spec c2_response True c2_package"
  by (simp add: skip_upload_def skip_upload_spec_def c2_response_def c2_package_def
      msg_400_def from_filename_def)

text \<open>
  C2, amended: \<open>skip_upload\<close> returns true if and only if the flag is true and the status
  is 409, or the status is 400 and the reason starts with one of the three known
  messages (a prefix match for each of them), or the status is 403 and the body contains
  the permissions message; every other combination gives false.
\<close>

theorem skip_upload_iff:
  \<open>skip_upload resp skip_ex pkg \<longleftrightarrow>
     skip_ex \<and> (status_code resp = 409 \<or>
        (status_code resp = 400 \<and>
           (prefix (''A file named "'' @ basefilename pkg @ ''" already exists for'') (reason resp) \<or>
            prefix ''File already exists'' (reason resp) \<or>
            prefix ''Repository does not allow updating assets'' (reason resp))) \<or>
        (status_code resp = 403 \<and>
           sublist ''Not enough permissions to overwrite artifact'' (resp_text resp)))\<close>
  by (simp add: skip_upload_def msg_400_def msg_403_def)

subsection \<open>The status validator\<close>

text \<open>
  C7: \<open>check_status_code\<close> applies its rules in order. A status 410 with the deprecated
  host in the URL raises UploadToDeprecatedPyPIDetected, whose message names the two
  canonical endpoint URLs; else a status 405 with the modern host in the URL raises
  InvalidPyPIUploadURL; else HTTPError is raised exactly when the status is from 400 to
  599; otherwise nothing is raised.
\<close>

theorem check_status_code_rules:
  "snd (check_status_code e resp verb) =
     (if status_code resp = 410 \<and> sublist ''pypi.python.org'' (url resp)
      then Some (UploadToDeprecatedPyPIDetected (deprecated_message e))
      else if status_code resp = 405 \<and> sublist ''pypi.org'' (url resp)
      then Some (InvalidPyPIUploadURL (invalid_url_message e))
      else if 400 \<le> status_code resp \<and> status_code resp < 600
      then Some (HTTPError (status_code resp) (resp_text resp))
      else None)
   \<and> sublist (DEFAULT_REPOSITORY e) (deprecated_message e)
   \<and> sublist (TEST_REPOSITORY e) (deprecated_message e)"
  by (simp add: check_status_code_def raise_for_status_def
      sublist_default_deprecated sublist_test_deprecated)

text \<open>
  C10: the two host detections are substring tests over the whole URL. Every response
  with status 405 raises InvalidPyPIUploadURL when \<open>pypi.org\<close> occurs anywhere in its URL
  (in the host \<open>notpypi.org\<close>, in a path) and HTTPError otherwise; every response with
  status 410 raises UploadToDeprecatedPyPIDetected when \<open>pypi.python.org\<close> occurs anywhere
  in its URL (in a query) and HTTPError otherwise.
\<close>

theorem check_status_code_substring:
  "snd (check_status_code e (resp\<lparr>status_code := 405\<rparr>) verb) =
     (if sublist ''pypi.org'' (url resp)
      then Some (InvalidPyPIUploadURL (invalid_url_message e))
      else Some (HTTPError 405 (resp_text resp)))
   \<and> snd (check_status_code e (resp\<lparr>status_code := 410\<rparr>) verb) =
     (if sublist ''pypi.python.org'' (url resp)
      then Some (UploadToDeprecatedPyPIDetected (deprecated_message e))
      else Some (HTTPError 410 (resp_text resp)))
   \<and> snd (check_status_code e
        (resp\<lparr>status_code := 405, url := ''https://notpypi.org/legacy/''\<rparr>) verb) =
       Some (InvalidPyPIUploadURL (invalid_url_message e))
   \<and> snd (check_status_code e
        (resp\<lparr>status_code := 405, url := ''https://example.com/pypi.org/?x=1''\<rparr>) verb) =
       Some (InvalidPyPIUploadURL (invalid_url_message e))
   \<and> snd (check_status_code e
        (resp\<lparr>status_code := 410, url := ''https://example.com/?next=pypi.python.org''\<rparr>) verb) =
       Some (UploadToDeprecatedPyPIDetected (deprecated_message e))"
  by (simp add: check_status_code_def raise_for_status_def sublist_code)

subsection \<open>Release of the repository client\<close>

text \<open>
  C1, as stated, fails: \<open>close\<close> is the last statement of \<open>upload\<close> and no handler
  surrounds the loop. In scenario E the second upload is answered with status 500, the
  loop is left with HTTPError and \<open>close\<close> is never called.
\<close>

theorem close_skipped_on_abort_counterexample:
  "snd (upload scenario_e_env (mock_settings False) [''a'', ''b'']) = Some (HTTPError 500 [])
   \<and> Call_close \<notin> set (trace (fst (upload scenario_e_env (mock_settings False) [''a'', ''b''])))"
  by (simp add: model_defs scenario_e_env_def)

text \<open>
  C1, amended: \<open>close\<close> is called exactly on the exit path where the loop completes
  without a fatal error, and there it is the last action of \<open>upload\<close>; on a path where
  the loop is left with a fatal error, \<open>close\<close> is not called.
\<close>

theorem close_iff_loop_completes:
  "(Call_close \<in> set (trace (fst (upload e s dists)))) = (snd (upload e s dists) = None)
   \<and> (last (trace (fst (upload e s dists))) = Call_close) = (snd (upload e s dists) = None)"
proof -
  let ?st2 = "\<lparr>trace = [Call_check_repository_url,
      Print (''Uploading distributions to '' @ repository s), Call_create_repository],
      uploaded_packages = []\<rparr>"
  obtain st3 r where l: "upload_loop e s (signatures (find_dists e dists)) (repository s)
      (uploads (find_dists e dists)) ?st2 = (st3, r)"
    by (cases "upload_loop e s (signatures (find_dists e dists)) (repository s)
      (uploads (find_dists e dists)) ?st2")
  from loop_events[OF l] obtain es
    where es: "trace st3 = trace ?st2 @ es" "list_all loop_event es"
    by blast
  show ?thesis
  proof (cases r)
    case None
    with l show ?thesis
      by (simp add: upload_def Let_def emit_def)
  next
    case (Some err)
    with l have u: "upload e s dists = (st3, Some err)"
      by (simp add: upload_def Let_def emit_def)
    have "Call_close \<notin> set (trace st3)"
      using es by (auto simp: list_all_iff dest: loop_event_not_close)
    moreover have "last (trace st3) \<noteq> Call_close"
      using es(1) last_loop_events[OF es(2)] by simp
    ultimately show ?thesis using u by simp
  qed
qed

subsection \<open>A batch without uploads\<close>

text \<open>
  C9, as stated, fails: after the loop \<open>release_urls\<close> is called on the repository
  client unconditionally, also when the batch holds signature files only.
\<close>

theorem empty_uploads_release_urls_counterexample:
  "uploads (find_dists (mock_env (\<lambda>p. mock_response 200)) c9_dists) = []
   \<and> Call_release_urls [] [] \<in>
       set (trace (fst (upload (mock_env (\<lambda>p. mock_response 200)) (mock_settings False) c9_dists)))"
  by (simp add: model_defs c9_dists_def)

text \<open>
  C9, amended: when the uploads sequence is empty, neither \<open>package_is_uploaded\<close> nor
  \<open>upload\<close> of the repository client is called; \<open>release_urls\<close> is called once, with
  the empty list of packages, and then \<open>close\<close>.
\<close>

theorem empty_uploads_calls:
  assumes "uploads (find_dists e dists) = []"
  shows "upload e s dists =
     (let t0 = [Call_check_repository_url,
                Print (''Uploading distributions to '' @ repository s),
                Call_create_repository];
          urls = release_urls e t0 []
      in (\<lparr>trace = t0 @ [Call_release_urls [] urls] @
                     (if urls \<noteq> [] then Print (CHR 0x0A # ''View at:'') # map Print urls else []) @
                     [Call_close],
           uploaded_packages = []\<rparr>, None))"
  using assms by (simp add: upload_def Let_def emit_def)

theorem empty_uploads_calls_witness:
  "uploads (find_dists (mock_env (\<lambda>p. mock_response 200)) c9_dists) = []
   \<and> upload (mock_env (\<lambda>p. mock_response 200)) (mock_settings True) c9_dists =
     (\<lparr>trace = [Call_check_repository_url,
                Print ''Uploading distributions to https://upload.pypi.org/legacy/'',
                Call_create_repository, Call_release_urls [] [], Call_close],
           uploaded_packages = []\<rparr>, None)"
proof -
  have h: "uploads (find_dists (mock_env (\<lambda>p. mock_response 200)) c9_dists) = []"
    by (simp add: uploads_def c9_dists_def mock_env_def suffix_to_prefix)
  show ?thesis
    using h empty_uploads_calls[OF h, of "mock_settings True"]
    by (simp add: mock_env_def mock_settings_def Let_def)
qed

subsection \<open>The redirect guard\<close>

text \<open>
  C3: whenever the log of a batch shows an upload that the repository answered with a
  redirect, whose target is the value of the location header, the batch ends with
  RedirectDetected carrying the repository URL and that target, and the upload is the
  last entry of the log: nothing is printed for the response and no later package is
  attempted. Nothing is assumed about the status, the messages or the settings. (The
  HTTP library reports a redirect only for a response that has a location header.)
\<close>

theorem redirect_aborts_batch:
  assumes "upload_loop e s sigs ru fs st = (st', r)"
    and "trace st' = trace st @ pre @ Call_upload p resp # post"
    and "is_redirect resp"
    and "headers resp ''location'' = Some loc"
  shows "r = Some (RedirectDetected ru loc) \<and> post = []"
proof -
  from loop_redirect[OF assms(1)] obtain es
    where es: "trace st' = trace st @ es" "redirect_inv ru es r"
    by blast
  with assms(2) have "es = pre @ Call_upload p resp # post" by simp
  with es(2) have "redirect_inv ru (pre @ Call_upload p resp # post) r" by simp
  from redirect_inv_last[OF this assms(3)] assms(4) show ?thesis by simp
qed

theorem redirect_aborts_batch_witness:
  "upload_loop (mock_env (\<lambda>p. redirect_response)) (mock_settings True) Map.empty
      ''https://upload.pypi.org/legacy/'' [''pkg-1.0.tar.gz'', ''other-2.0.tar.gz''] empty_state =
     (\<lparr>trace = [Call_package_is_uploaded (from_filename ''pkg-1.0.tar.gz'' None) False,
                Call_upload (from_filename ''pkg-1.0.tar.gz'' None) redirect_response],
       uploaded_packages = []\<rparr>,
      Some (RedirectDetected ''https://upload.pypi.org/legacy/'' ''https://mirror.example/x''))
   \<and> is_redirect redirect_response
   \<and> headers redirect_response ''location'' = Some ''https://mirror.example/x''"
proof -
  let ?X = "upload_loop (mock_env (\<lambda>p. redirect_response)) (mock_settings True) Map.empty
      ''https://upload.pypi.org/legacy/'' [''pkg-1.0.tar.gz'', ''other-2.0.tar.gz''] empty_state"
  have t: "trace (fst ?X) = trace empty_state @
      [Call_package_is_uploaded (from_filename ''pkg-1.0.tar.gz'' None) False] @
      Call_upload (from_filename ''pkg-1.0.tar.gz'' None) redirect_response # []"
    by (simp add: model_defs empty_state_def redirect_response_def)
  have u: "uploaded_packages (fst ?X) = []"
    by (simp add: model_defs empty_state_def redirect_response_def)
  have r1: "is_redirect redirect_response"
    by (simp add: redirect_response_def)
  have r2: "headers redirect_response ''location'' = Some ''https://mirror.example/x''"
    by (simp add: redirect_response_def)
  have "snd ?X = Some (RedirectDetected ''https://upload.pypi.org/legacy/''
      ''https://mirror.example/x'') \<and> ([]::event list) = []"
    by (rule redirect_aborts_batch[OF prod.collapse[symmetric] t r1 r2])
  with t u r1 r2 show ?thesis
    by (cases ?X) (simp add: empty_state_def)
qed

subsection \<open>The accumulator of successful uploads\<close>

text \<open>
  C5: after the loop, \<open>uploaded_packages\<close> is what it was before followed by the packages
  of exactly the upload attempts of the loop that passed the redirect guard, were not
  classified as a skip and passed the status validator, in the order of the log. A
  package skipped by the pre-check has no upload attempt. When skip-existing is set and
  every upload of the loop is answered with status 409 (and no redirect), the loop ends
  without an exception and the accumulator is unchanged.
\<close>

theorem uploaded_packages_are_successes:
  assumes "upload_loop e s sigs ru fs st = (st', r)"
  shows "\<exists>es. trace st' = trace st @ es \<and>
      uploaded_packages st' = uploaded_packages st @ successes e s es \<and>
      (skip_existing s \<and> list_all benign_conflict es \<longrightarrow>
         r = None \<and> uploaded_packages st' = uploaded_packages st)"
proof -
  from loop_successes[OF assms] obtain es
    where es: "trace st' = trace st @ es"
      "uploaded_packages st' = uploaded_packages st @ successes e s es"
      "skip_existing s \<and> list_all benign_conflict es \<longrightarrow> r = None"
    by blast
  have "successes e s es = []" if "skip_existing s" "list_all benign_conflict es"
    using that
    by (induction es)
       (auto simp: successes_Nil successes_upload successes_other accepted_def
          benign_conflict_def skip_upload_def split: event.splits)
  with es show ?thesis by auto
qed

theorem uploaded_packages_are_successes_witness:
  "snd (upload_loop (mock_env (\<lambda>p. mock_response 409)) (mock_settings True) Map.empty
      ''https://upload.pypi.org/legacy/'' [''pkg-1.0.tar.gz''] empty_state) = None
   \<and> uploaded_packages (fst (upload_loop (mock_env (\<lambda>p. mock_response 409)) (mock_settings True)
      Map.empty ''https://upload.pypi.org/legacy/'' [''pkg-1.0.tar.gz''] empty_state)) = []
   \<and> skip_existing (mock_settings True)
   \<and> list_all benign_conflict (trace (fst (upload_loop (mock_env (\<lambda>p. mock_response 409))
      (mock_settings True) Map.empty ''https://upload.pypi.org/legacy/'' [''pkg-1.0.tar.gz'']
      empty_state)))"
proof -
  let ?X = "upload_loop (mock_env (\<lambda>p. mock_response 409)) (mock_settings True) Map.empty
      ''https://upload.pypi.org/legacy/'' [''pkg-1.0.tar.gz''] empty_state"
  have b: "list_all benign_conflict (trace (fst ?X))"
    by (simp add: model_defs empty_state_def benign_conflict_def)
  have s: "skip_existing (mock_settings True)"
    by (simp add: mock_settings_def)
  from uploaded_packages_are_successes[OF prod.collapse[symmetric], of
      "mock_env (\<lambda>p. mock_response 409)" "mock_settings True" Map.empty
      "''https://upload.pypi.org/legacy/''" "[''pkg-1.0.tar.gz'']" empty_state]
  obtain es where es: "trace (fst ?X) = trace empty_state @ es"
    "skip_existing (mock_settings True) \<and> list_all benign_conflict es \<longrightarrow>
       snd ?X = None \<and> uploaded_packages (fst ?X) = uploaded_packages empty_state"
    by blast
  from es(1) have "es = trace (fst ?X)" by (simp add: empty_state_def)
  with es(2) b s have "snd ?X = None \<and> uploaded_packages (fst ?X) = uploaded_packages empty_state"
    by simp
  with b s show ?thesis by (simp add: empty_state_def)
qed

subsection \<open>The pre-check\<close>

text \<open>
  C6: when skip-existing is set, the first thing the body of the loop does for a package
  is to ask \<open>package_is_uploaded\<close>, once; when the answer is true, the body prints the
  skip message and ends without an exception, so that no upload is made for the package
  and the loop goes on with the next path. When skip-existing is not set, the loop never
  calls \<open>package_is_uploaded\<close>.
\<close>

theorem precheck_before_upload:
  "(skip_existing s \<longrightarrow>
      (\<exists>es. trace (fst (upload_body e s sigs ru f st)) =
           trace st @ Call_package_is_uploaded (from_filename f (settings_comment s))
              (package_is_uploaded e (trace st) (from_filename f (settings_comment s))) # es
         \<and> list_all (\<lambda>ev. \<not> is_package_is_uploaded ev) es)
      \<and> (package_is_uploaded e (trace st) (from_filename f (settings_comment s)) \<longrightarrow>
           upload_body e s sigs ru f st =
             (emit [Call_package_is_uploaded (from_filename f (settings_comment s)) True,
                    Print (skip_message (from_filename f (settings_comment s)))] st, None)
         \<and> upload_loop e s sigs ru (f # fs) st =
             upload_loop e s sigs ru fs
               (emit [Call_package_is_uploaded (from_filename f (settings_comment s)) True,
                      Print (skip_message (from_filename f (settings_comment s)))] st)))
   \<and> (\<not> skip_existing s' \<longrightarrow>
        (\<exists>es. trace (fst (upload_loop e s' sigs ru fs st)) = trace st @ es
           \<and> list_all (\<lambda>ev. \<not> is_package_is_uploaded ev) es))"
proof (intro conjI impI)
  assume "skip_existing s"
  then show "\<exists>es. trace (fst (upload_body e s sigs ru f st)) =
           trace st @ Call_package_is_uploaded (from_filename f (settings_comment s))
              (package_is_uploaded e (trace st) (from_filename f (settings_comment s))) # es
         \<and> list_all (\<lambda>ev. \<not> is_package_is_uploaded ev) es"
    by (rule body_precheck_on)
next
  assume a: "skip_existing s"
    "package_is_uploaded e (trace st) (from_filename f (settings_comment s))"
  then show b: "upload_body e s sigs ru f st =
             (emit [Call_package_is_uploaded (from_filename f (settings_comment s)) True,
                    Print (skip_message (from_filename f (settings_comment s)))] st, None)"
    by (rule body_precheck_skip)
  then show "upload_loop e s sigs ru (f # fs) st =
             upload_loop e s sigs ru fs
               (emit [Call_package_is_uploaded (from_filename f (settings_comment s)) True,
                      Print (skip_message (from_filename f (settings_comment s)))] st)"
    by simp
next
  assume "\<not> skip_existing s'"
  from loop_precheck_off[OF this prod.collapse[symmetric]]
  show "\<exists>es. trace (fst (upload_loop e s' sigs ru fs st)) = trace st @ es
           \<and> list_all (\<lambda>ev. \<not> is_package_is_uploaded ev) es" .
qed

theorem precheck_before_upload_witness:
  "skip_existing (mock_settings True)
   \<and> package_is_uploaded known_env (trace empty_state) (from_filename ''pkg-1.0.tar.gz'' None)
   \<and> upload_body known_env (mock_settings True) Map.empty ''https://upload.pypi.org/legacy/''
        ''pkg-1.0.tar.gz'' empty_state =
       (\<lparr>trace = [Call_package_is_uploaded (from_filename ''pkg-1.0.tar.gz'' None) True,
                  Print ''  Skipping pkg-1.0.tar.gz because it appears to already exist''],
         uploaded_packages = []\<rparr>, None)
   \<and> \<not> skip_existing (mock_settings False)
   \<and> \<not> list_ex is_package_is_uploaded
        (trace (fst (upload_loop known_env (mock_settings False) Map.empty
           ''https://upload.pypi.org/legacy/'' [''pkg-1.0.tar.gz''] empty_state)))"
  using precheck_before_upload[of "mock_settings True" known_env Map.empty
      "''https://upload.pypi.org/legacy/''" "''pkg-1.0.tar.gz''" empty_state "[]"
      "mock_settings False" ]
  by (simp add: model_defs known_env_def empty_state_def)

subsection \<open>Signature resolution\<close>

text \<open>
  C8: for a package that the pre-check does not skip, what happens between the pre-check
  and the upload follows a strict precedence. When the signed basename is a key of the
  signature map, the signature file is attached and \<open>sign\<close> is not called, whatever the
  sign option says; otherwise, when the sign option is set, \<open>sign\<close> is called and its
  output attached; otherwise the package is uploaded without a signature.
\<close>

theorem signature_precedence:
  assumes "\<not> (skip_existing s \<and>
               package_is_uploaded e (trace st) (from_filename f (settings_comment s)))"
  shows "\<exists>resp post.
     trace (fst (upload_body e s sigs ru f st)) =
       trace st
       @ (if skip_existing s
          then [Call_package_is_uploaded (from_filename f (settings_comment s)) False] else [])
       @ (case sigs (basename f @ ''.asc'') of
            Some path \<Rightarrow> [Call_add_gpg_signature path (basename f @ ''.asc'')]
          | None \<Rightarrow> if sign s then [Call_sign (sign_with s) (identity s) f] else [])
       @ Call_upload ((from_filename f (settings_comment s))
         \<lparr>gpg_signature :=
            (case sigs (basename f @ ''.asc'') of
               Some path \<Rightarrow> Some (basename f @ ''.asc'', read_file e path)
             | None \<Rightarrow>
                 if sign s
                 then Some (basename f @ ''.asc'', run_gpg e (sign_with s) (identity s) f)
                 else None)\<rparr>) resp # post
     \<and> list_all is_print post"
  by (rule signature_precedence_aux[OF assms prod.collapse[symmetric]])

theorem signature_precedence_witness:
  "\<not> (skip_existing signing_settings \<and>
       package_is_uploaded (mock_env (\<lambda>p. mock_response 200)) (trace empty_state)
         (from_filename ''pkg-1.0.tar.gz'' (settings_comment signing_settings)))
   \<and> sign signing_settings
   \<and> signatures scenario_c_dists ''pkg-1.0.tar.gz.asc'' = Some ''pkg-1.0.tar.gz.asc''
   \<and> trace (fst (upload_body (mock_env (\<lambda>p. mock_response 200))
        signing_settings (signatures scenario_c_dists)
        ''https://upload.pypi.org/legacy/'' ''pkg-1.0.tar.gz'' empty_state)) =
       [Call_add_gpg_signature ''pkg-1.0.tar.gz.asc'' ''pkg-1.0.tar.gz.asc'',
        Call_upload
          ((from_filename ''pkg-1.0.tar.gz'' None)
             \<lparr>gpg_signature := Some (''pkg-1.0.tar.gz.asc'', ''contents of pkg-1.0.tar.gz.asc'')\<rparr>)
          (mock_response 200)]"
proof -
  have h: "\<not> (skip_existing signing_settings \<and>
       package_is_uploaded (mock_env (\<lambda>p. mock_response 200)) (trace empty_state)
         (from_filename ''pkg-1.0.tar.gz'' (settings_comment signing_settings)))"
    by (simp add: mock_settings_def signing_settings_def)
  show ?thesis
    using h signature_precedence[OF h, of "signatures scenario_c_dists"
        "''https://upload.pypi.org/legacy/''"]
    by (simp add: model_defs scenario_c_dists_def empty_state_def signing_settings_def)
qed

subsection \<open>The partitioner\<close>

text \<open>
  C4, as stated, fails: of two signature files with the same basename, the dictionary
  keeps the later one only. The path \<open>a/x.asc\<close> ends with \<open>.asc\<close> and is not a value of
  the signature map, whose key \<open>x.asc\<close> holds \<open>b/x.asc\<close>.
\<close>

theorem signature_map_last_wins_counterexample:
  "suffix ''.asc'' ''a/x.asc'' \<and> ''a/x.asc'' \<in> set c4_dists
   \<and> signatures c4_dists (basename ''a/x.asc'') = Some ''b/x.asc''
   \<and> ''a/x.asc'' \<notin> ran (signatures c4_dists)"
  by (simp add: c4_dists_def signatures_def basename_def suffix_to_prefix ran_def)

text \<open>
  C4, amended: the signature map sends a basename to the last input path that ends with
  \<open>.asc\<close> and has that basename, so that a path is a value of the map (under its
  basename) if and only if it ends with \<open>.asc\<close> and no later path ending with \<open>.asc\<close>
  has the same basename; the keys are the basenames of the paths ending with \<open>.asc\<close>
  and every value ends with \<open>.asc\<close>. The uploads sequence holds exactly the paths that
  do not end with \<open>.asc\<close>, in input order, and no path is both a value of the
  signature map and a member of the uploads sequence.
\<close>

theorem partition_dists:
  "signatures dists k = find (\<lambda>d. suffix ''.asc'' d \<and> basename d = k) (rev dists)
   \<and> dom (signatures dists) = basename ` {d \<in> set dists. suffix ''.asc'' d}
   \<and> ran (signatures dists) \<subseteq> {d \<in> set dists. suffix ''.asc'' d}
   \<and> uploads dists = filter (\<lambda>d. \<not> suffix ''.asc'' d) dists
   \<and> ran (signatures dists) \<inter> set (uploads dists) = {}"
proof -
  have "ran (signatures dists) \<inter> set (uploads dists) = {}"
    using ran_signatures[of dists] by (auto simp: uploads_def)
  then show ?thesis
    by (simp add: signatures_find dom_signatures ran_signatures uploads_def)
qed

theorem partition_dists_witness:
  "signatures c4_dists ''x.asc'' = Some ''b/x.asc''
   \<and> uploads c4_dists = [''pkg-1.0.tar.gz'']
   \<and> ran (signatures c4_dists) \<inter> set (uploads c4_dists) = {}"
  using partition_dists[of c4_dists "''x.asc''"]
  by (simp add: c4_dists_def basename_def suffix_to_prefix signatures_def uploads_def ran_def)

end
